theory Spec2Isabelle
  imports Complex_Main "HOL-Library.Word"
begin

section \<open>Platform values used by SurfaceFactory.cpp\<close>

text \<open>
  The factory handles object references (\<open>T^\<close>), sizes, rectangles and colours of the
  Windows runtime. A reference is an object identity; \<open>nullptr\<close> is \<open>None\<close>.
  Single-precision numbers are only stored, passed on and compared with zero by this
  file, so a finite one is represented by the real number it denotes, and the three
  special values are kept apart.
\<close>

type_synonym handle = nat
type_synonym token = nat
type_synonym byte = "8 word"
type_synonym Uri = string

datatype float = NegativeInfinity | Finite real | PositiveInfinity | NaN

fun below_zero :: "float \<Rightarrow> bool" where
  "below_zero NegativeInfinity = True"
| "below_zero (Finite r) = (r < 0)"
| "below_zero PositiveInfinity = False"
| "below_zero NaN = False"

record Size =
  Width :: float
  Height :: float

text \<open>
  \<open>Windows::Foundation::Size\<close> is declared by the platform, outside the source file:
  \<open>Size::Empty\<close> has both fields at negative infinity, and \<open>IsEmpty\<close> holds of a size
  whose width is below zero.
\<close>

definition Size_Empty :: Size where
  "Size_Empty = \<lparr>Width = NegativeInfinity, Height = NegativeInfinity\<rparr>"

definition IsEmpty :: "Size \<Rightarrow> bool" where
  "IsEmpty s = below_zero (Width s)"

datatype Rect = Rect float float float float

datatype Color = Color byte byte byte byte

text \<open>\<open>Windows::UI::Colors::Transparent\<close>: alpha 0 (then red, green, blue).\<close>

definition Transparent :: Color where
  "Transparent = Color 0 255 255 255"

fun alpha_of :: "Color \<Rightarrow> byte" where
  "alpha_of (Color a r g b) = a"

datatype DirectXPixelFormat = Unknown | R8G8B8A8UIntNormalized | B8G8R8A8UIntNormalized

datatype DirectXAlphaMode = Unspecified | Premultiplied | Straight | Ignore

text \<open>
  Modelled from the spec: the enumeration \<open>InterpolationMode\<close> is declared in a header
  that is not among the sources (nearest-neighbour, linear, and the higher-quality
  tiers); the source file names only \<open>Linear\<close>.
\<close>

datatype InterpolationMode =
  NearestNeighbor | Linear | MultiSampleLinear | Anisotropic | Cubic | HighQualityCubic

datatype CanvasImageInterpolation =
  Canvas_NearestNeighbor | Canvas_Linear | Canvas_Cubic | Canvas_MultiSampleLinear
| Canvas_Anisotropic | Canvas_HighQualityCubic

record CanvasBitmap =
  bitmap_Size :: Size
  bitmap_pixels :: "byte list"

datatype error = NullReference | InvalidArgument | BackendFailure | LockHeld

section \<open>The objects behind the references\<close>

text \<open>
  The graphics backend and the heap of reference objects form the world the factory
  runs in. Every operation on a device or a surface is also written to a journal,
  together with the locks held at that moment, so that "under the lock" is a property
  of the journal.
\<close>

record CanvasDevice_obj =
  ForceSoftwareRenderer :: bool
  device_closed :: bool

record GraphicsDevice_obj =
  Compositor :: handle
  RenderingDevice :: handle
  RenderingDeviceReplaced :: "(token \<times> handle) list"
  graphics_closed :: bool

record DeviceLostHelper_obj =
  watched :: "handle option"
  DeviceLost :: "(token \<times> handle) list"

datatype paint =
  Clear Color
| DrawImage CanvasBitmap Rect Rect float CanvasImageInterpolation

record Surface_obj =
  surface_size :: Size
  pixelFormat :: DirectXPixelFormat
  alphaMode :: DirectXAlphaMode
  surface_device :: handle
  painted :: "paint list"

datatype backend_call =
  New_CanvasDevice handle bool
| Call_WatchDevice handle handle
| Call_StopWatchingCurrentDevice handle
| Call_CreateCompositionGraphicsDevice handle handle handle
| Call_SetCanvasDevice handle handle
| Call_CreateDrawingSurface handle handle Size
| Call_Resize handle Size
| Call_Clear handle Color
| Call_DrawImage handle CanvasBitmap Rect Rect float CanvasImageInterpolation
| Close_CanvasDevice handle
| Close_GraphicsDevice handle

record World =
  next_handle :: nat
  canvasDevices :: "handle \<rightharpoonup> CanvasDevice_obj"
  graphicsDevices :: "handle \<rightharpoonup> GraphicsDevice_obj"
  helpers :: "handle \<rightharpoonup> DeviceLostHelper_obj"
  surfaces :: "handle \<rightharpoonup> Surface_obj"
  held :: "handle list"
  journal :: "(backend_call \<times> handle list) list"

definition alloc :: "World \<Rightarrow> handle \<times> World" where
  "alloc w = (next_handle w, w\<lparr>next_handle := Suc (next_handle w)\<rparr>)"

definition record_call :: "backend_call \<Rightarrow> World \<Rightarrow> World" where
  "record_call c w = w\<lparr>journal := journal w @ [(c, held w)]\<rparr>"


section \<open>The graphics backend\<close>

text \<open>
  Win2D and the compositor are outside the repository. Each operation is modelled as
  carrying out the request on the object it is given and failing when that object is
  absent; a null argument is refused with \<open>InvalidArgument\<close>. The backend's own
  validation of sizes and pixel data is not part of this model: the two operations that
  decode pixels are parameters (see \<open>Env\<close> below).
\<close>

definition new_CanvasDevice :: "bool \<Rightarrow> World \<Rightarrow> handle \<times> World" where
  "new_CanvasDevice useSoftwareRenderer w =
     (let (d, w1) = alloc w in
      (d, record_call (New_CanvasDevice d useSoftwareRenderer)
            (w1\<lparr>canvasDevices := (canvasDevices w1)
               (d \<mapsto> \<lparr>ForceSoftwareRenderer = useSoftwareRenderer, device_closed = False\<rparr>)\<rparr>)))"

definition close_CanvasDevice :: "handle \<Rightarrow> World \<Rightarrow> error + World" where
  "close_CanvasDevice d w =
     (case canvasDevices w d of
        None \<Rightarrow> Inl BackendFailure
      | Some dev \<Rightarrow> Inr (record_call (Close_CanvasDevice d)
          (w\<lparr>canvasDevices := (canvasDevices w)(d \<mapsto> dev\<lparr>device_closed := True\<rparr>)\<rparr>)))"

definition CreateCompositionGraphicsDevice :: "handle \<Rightarrow> handle \<Rightarrow> World \<Rightarrow> handle \<times> World" where
  "CreateCompositionGraphicsDevice compositor d w =
     (let (gd, w1) = alloc w in
      (gd, record_call (Call_CreateCompositionGraphicsDevice gd compositor d)
            (w1\<lparr>graphicsDevices := (graphicsDevices w1)
               (gd \<mapsto> \<lparr>Compositor = compositor, RenderingDevice = d,
                        RenderingDeviceReplaced = [], graphics_closed = False\<rparr>)\<rparr>)))"

definition GetCanvasDevice :: "handle option \<Rightarrow> World \<Rightarrow> error + handle" where
  "GetCanvasDevice graphicsDevice w =
     (case graphicsDevice of
        None \<Rightarrow> Inl InvalidArgument
      | Some gd \<Rightarrow>
          (case graphicsDevices w gd of
             None \<Rightarrow> Inl BackendFailure
           | Some g \<Rightarrow> Inr (RenderingDevice g)))"

definition SetCanvasDevice :: "handle option \<Rightarrow> handle \<Rightarrow> World \<Rightarrow> error + World" where
  "SetCanvasDevice graphicsDevice d w =
     (case graphicsDevice of
        None \<Rightarrow> Inl InvalidArgument
      | Some gd \<Rightarrow>
          (case graphicsDevices w gd of
             None \<Rightarrow> Inl BackendFailure
           | Some g \<Rightarrow> Inr (record_call (Call_SetCanvasDevice gd d)
               (w\<lparr>graphicsDevices := (graphicsDevices w)(gd \<mapsto> g\<lparr>RenderingDevice := d\<rparr>)\<rparr>))))"

definition close_GraphicsDevice :: "handle \<Rightarrow> World \<Rightarrow> error + World" where
  "close_GraphicsDevice gd w =
     (case graphicsDevices w gd of
        None \<Rightarrow> Inl BackendFailure
      | Some g \<Rightarrow> Inr (record_call (Close_GraphicsDevice gd)
          (w\<lparr>graphicsDevices := (graphicsDevices w)(gd \<mapsto> g\<lparr>graphics_closed := True\<rparr>)\<rparr>)))"

text \<open>\<open>event += handler\<close> returns a fresh registration token; \<open>event -= token\<close> drops it.\<close>

definition add_RenderingDeviceReplaced :: "handle \<Rightarrow> handle \<Rightarrow> World \<Rightarrow> error + (token \<times> World)" where
  "add_RenderingDeviceReplaced gd subscriber w =
     (case graphicsDevices w gd of
        None \<Rightarrow> Inl BackendFailure
      | Some g \<Rightarrow>
          (let (tok, w1) = alloc w in
           Inr (tok, w1\<lparr>graphicsDevices := (graphicsDevices w1)
                  (gd \<mapsto> g\<lparr>RenderingDeviceReplaced :=
                             RenderingDeviceReplaced g @ [(tok, subscriber)]\<rparr>)\<rparr>)))"

definition remove_RenderingDeviceReplaced :: "handle \<Rightarrow> token \<Rightarrow> World \<Rightarrow> error + World" where
  "remove_RenderingDeviceReplaced gd tok w =
     (case graphicsDevices w gd of
        None \<Rightarrow> Inl BackendFailure
      | Some g \<Rightarrow> Inr (w\<lparr>graphicsDevices := (graphicsDevices w)
          (gd \<mapsto> g\<lparr>RenderingDeviceReplaced :=
                     filter (\<lambda>p. fst p \<noteq> tok) (RenderingDeviceReplaced g)\<rparr>)\<rparr>))"

definition CreateDrawingSurface ::
  "handle \<Rightarrow> Size \<Rightarrow> DirectXPixelFormat \<Rightarrow> DirectXAlphaMode \<Rightarrow> World \<Rightarrow> error + (handle \<times> World)" where
  "CreateDrawingSurface gd sz fmt alpha w =
     (case graphicsDevices w gd of
        None \<Rightarrow> Inl BackendFailure
      | Some g \<Rightarrow>
          (let (s, w1) = alloc w in
           Inr (s, record_call (Call_CreateDrawingSurface gd s sz)
                 (w1\<lparr>surfaces := (surfaces w1)
                    (s \<mapsto> \<lparr>surface_size = sz, pixelFormat = fmt, alphaMode = alpha,
                           surface_device = gd, painted = []\<rparr>)\<rparr>))))"

text \<open>A resized surface has no defined content until it is painted again.\<close>

definition Resize :: "handle \<Rightarrow> Size \<Rightarrow> World \<Rightarrow> error + World" where
  "Resize s sz w =
     (case surfaces w s of
        None \<Rightarrow> Inl BackendFailure
      | Some so \<Rightarrow> Inr (record_call (Call_Resize s sz)
          (w\<lparr>surfaces := (surfaces w)(s \<mapsto> so\<lparr>surface_size := sz, painted := []\<rparr>)\<rparr>)))"

text \<open>
  A drawing session on a surface: \<open>Clear\<close> replaces everything painted before,
  \<open>DrawImage\<close> is painted over what is there.
\<close>

definition session_Clear :: "handle \<Rightarrow> Color \<Rightarrow> World \<Rightarrow> error + World" where
  "session_Clear s c w =
     (case surfaces w s of
        None \<Rightarrow> Inl BackendFailure
      | Some so \<Rightarrow> Inr (record_call (Call_Clear s c)
          (w\<lparr>surfaces := (surfaces w)(s \<mapsto> so\<lparr>painted := [Clear c]\<rparr>)\<rparr>)))"

definition session_DrawImage ::
  "handle \<Rightarrow> CanvasBitmap \<Rightarrow> Rect \<Rightarrow> Rect \<Rightarrow> float \<Rightarrow> CanvasImageInterpolation \<Rightarrow> World \<Rightarrow> error + World" where
  "session_DrawImage s bm dst src opacity ip w =
     (case surfaces w s of
        None \<Rightarrow> Inl BackendFailure
      | Some so \<Rightarrow> Inr (record_call (Call_DrawImage s bm dst src opacity ip)
          (w\<lparr>surfaces := (surfaces w)
             (s \<mapsto> so\<lparr>painted := painted so @ [DrawImage bm dst src opacity ip]\<rparr>)\<rparr>)))"

section \<open>Lock and DeviceLostHelper\<close>

text \<open>
  Modelled from the spec: Lock.h is not among the sources. Acquiring returns a scoped
  session; releasing the session unlocks; acquiring a lock that is held does not return
  (no re-entrancy), which this sequential model reports as \<open>LockHeld\<close>.
\<close>

definition GetLockSession :: "handle \<Rightarrow> World \<Rightarrow> error + World" where
  "GetLockSession l w =
     (if l \<in> set (held w) then Inl LockHeld else Inr (w\<lparr>held := l # held w\<rparr>))"

definition end_LockSession :: "handle \<Rightarrow> World \<Rightarrow> World" where
  "end_LockSession l w = w\<lparr>held := remove1 l (held w)\<rparr>"

text \<open>
  Modelled from the spec: DeviceLostHelper is not among the sources. \<open>WatchDevice\<close>
  begins observing a device; \<open>StopWatchingCurrentDevice\<close> ends the observation and is
  safe when nothing is watched.
\<close>

definition new_DeviceLostHelper :: "World \<Rightarrow> handle \<times> World" where
  "new_DeviceLostHelper w =
     (let (h, w1) = alloc w in
      (h, w1\<lparr>helpers := (helpers w1)(h \<mapsto> \<lparr>watched = None, DeviceLost = []\<rparr>)\<rparr>))"

definition add_DeviceLost :: "handle \<Rightarrow> handle \<Rightarrow> World \<Rightarrow> error + (token \<times> World)" where
  "add_DeviceLost h subscriber w =
     (case helpers w h of
        None \<Rightarrow> Inl BackendFailure
      | Some hp \<Rightarrow>
          (let (tok, w1) = alloc w in
           Inr (tok, w1\<lparr>helpers := (helpers w1)
                  (h \<mapsto> hp\<lparr>DeviceLost := DeviceLost hp @ [(tok, subscriber)]\<rparr>)\<rparr>)))"

definition WatchDevice :: "handle \<Rightarrow> handle \<Rightarrow> World \<Rightarrow> error + World" where
  "WatchDevice h d w =
     (case helpers w h of
        None \<Rightarrow> Inl BackendFailure
      | Some hp \<Rightarrow> Inr (record_call (Call_WatchDevice h d)
          (w\<lparr>helpers := (helpers w)(h \<mapsto> hp\<lparr>watched := Some d\<rparr>)\<rparr>)))"

definition StopWatchingCurrentDevice :: "handle \<Rightarrow> World \<Rightarrow> error + World" where
  "StopWatchingCurrentDevice h w =
     (case helpers w h of
        None \<Rightarrow> Inl BackendFailure
      | Some hp \<Rightarrow> Inr (record_call (Call_StopWatchingCurrentDevice h)
          (w\<lparr>helpers := (helpers w)(h \<mapsto> hp\<lparr>watched := None\<rparr>)\<rparr>)))"

section \<open>SurfaceFactory: state, construction, device recovery\<close>

text \<open>
  The fields of the factory are those the source file assigns. The functions that only
  forward to listeners or to TextSurface (\<open>OnRenderingDeviceReplaced\<close>,
  \<open>RaiseDeviceReplacedEvent\<close>, \<open>CreateTextSurface\<close>) are not embedded.
\<close>

record SurfaceFactoryOptions =
  UseSoftwareRenderer :: bool

record SurfaceFactory =
  self :: handle
  m_compositor :: "handle option"
  m_drawingLock :: "handle option"
  m_isGraphicsDeviceCreator :: bool
  m_deviceLostHelper :: "handle option"
  m_canvasDevice :: "handle option"
  m_graphicsDevice :: "handle option"
  OnDeviceLostHandler :: token
  OnRenderingDeviceReplacedHandler :: token

text \<open>A freshly allocated factory object: every field is null, false or zero.\<close>

definition blank_SurfaceFactory :: "handle \<Rightarrow> SurfaceFactory" where
  "blank_SurfaceFactory this =
     \<lparr>self = this, m_compositor = None, m_drawingLock = None,
      m_isGraphicsDeviceCreator = False, m_deviceLostHelper = None,
      m_canvasDevice = None, m_graphicsDevice = None,
      OnDeviceLostHandler = 0, OnRenderingDeviceReplacedHandler = 0\<rparr>"

definition CreateDevice ::
  "SurfaceFactory \<Rightarrow> 'a SurfaceFactoryOptions_scheme \<Rightarrow> World \<Rightarrow> error + (SurfaceFactory \<times> World)" where
  "CreateDevice f options w =
     (case m_compositor f of
        Some compositor \<Rightarrow>
          (if m_isGraphicsDeviceCreator f then
             (case (case m_canvasDevice f of
                      None \<Rightarrow>
                        (let (d, w1) = new_CanvasDevice (UseSoftwareRenderer options) w;
                             f1 = f\<lparr>m_canvasDevice := Some d\<rparr>
                         in case m_deviceLostHelper f1 of
                              None \<Rightarrow> Inl NullReference
                            | Some h \<Rightarrow>
                                (case WatchDevice h d w1 of
                                   Inl e \<Rightarrow> Inl e
                                 | Inr w2 \<Rightarrow> Inr (d, f1, w2)))
                    | Some d \<Rightarrow> Inr (d, f, w)) of
                Inl e \<Rightarrow> Inl e
              | Inr (d, f1, w2) \<Rightarrow>
                  (case m_graphicsDevice f1 of
                     None \<Rightarrow>
                       (let (gd, w3) = CreateCompositionGraphicsDevice compositor d w2;
                            f2 = f1\<lparr>m_graphicsDevice := Some gd\<rparr>
                        in case add_RenderingDeviceReplaced gd (self f2) w3 of
                             Inl e \<Rightarrow> Inl e
                           | Inr (tok, w4) \<Rightarrow>
                               Inr (f2\<lparr>OnRenderingDeviceReplacedHandler := tok\<rparr>, w4))
                   | Some gd \<Rightarrow> Inr (f1, w2)))
           else Inr (f, w))
      | None \<Rightarrow> Inr (f, w))"

text \<open>\<open>SurfaceFactory(Compositor^, SurfaceFactoryOptions)\<close>, the owning mode.\<close>

definition new_SurfaceFactory_compositor ::
  "handle option \<Rightarrow> 'a SurfaceFactoryOptions_scheme \<Rightarrow> World \<Rightarrow> error + (SurfaceFactory \<times> World)" where
  "new_SurfaceFactory_compositor compositor options w =
     (let (this, w0) = alloc w;
          (l, w1) = alloc w0;
          (h, w2) = new_DeviceLostHelper w1
      in case add_DeviceLost h this w2 of
           Inl e \<Rightarrow> Inl e
         | Inr (tok, w3) \<Rightarrow>
             CreateDevice
               ((blank_SurfaceFactory this)
                  \<lparr>m_compositor := compositor, m_drawingLock := Some l,
                   m_isGraphicsDeviceCreator := True, m_deviceLostHelper := Some h,
                   OnDeviceLostHandler := tok\<rparr>)
               options w3)"

text \<open>\<open>SurfaceFactory(CompositionGraphicsDevice^, Lock^)\<close>, the borrowing mode.\<close>

definition new_SurfaceFactory_graphicsDevice ::
  "handle option \<Rightarrow> handle option \<Rightarrow> World \<Rightarrow> error + (SurfaceFactory \<times> World)" where
  "new_SurfaceFactory_graphicsDevice graphicsDevice lck w =
     (let (this, w0) = alloc w in
      case graphicsDevice of
        None \<Rightarrow> Inl NullReference
      | Some gd \<Rightarrow>
          (case graphicsDevices w0 gd of
             None \<Rightarrow> Inl BackendFailure
           | Some g \<Rightarrow>
               (let (l, w1) = (case lck of None \<Rightarrow> alloc w0 | Some l \<Rightarrow> (l, w0)) in
                case add_RenderingDeviceReplaced gd this w1 of
                  Inl e \<Rightarrow> Inl e
                | Inr (tok, w2) \<Rightarrow>
                    Inr ((blank_SurfaceFactory this)
                           \<lparr>m_compositor := Some (Compositor g), m_graphicsDevice := Some gd,
                            m_isGraphicsDeviceCreator := False, m_drawingLock := Some l,
                            OnRenderingDeviceReplacedHandler := tok\<rparr>, w2))))"

definition CreateFromCompositor1 :: "handle option \<Rightarrow> World \<Rightarrow> error + (SurfaceFactory \<times> World)" where
  "CreateFromCompositor1 compositor w =
     (let options = \<lparr>UseSoftwareRenderer = False\<rparr>;
          options = options\<lparr>UseSoftwareRenderer := False\<rparr>
      in new_SurfaceFactory_compositor compositor options w)"

definition CreateFromCompositor2 ::
  "handle option \<Rightarrow> 'a SurfaceFactoryOptions_scheme \<Rightarrow> World \<Rightarrow> error + (SurfaceFactory \<times> World)" where
  "CreateFromCompositor2 compositor options w = new_SurfaceFactory_compositor compositor options w"

definition CreateFromGraphicsDevice1 :: "handle option \<Rightarrow> World \<Rightarrow> error + (SurfaceFactory \<times> World)" where
  "CreateFromGraphicsDevice1 graphicsDevice w =
     new_SurfaceFactory_graphicsDevice graphicsDevice None w"

definition CreateFromGraphicsDevice2 ::
  "handle option \<Rightarrow> handle option \<Rightarrow> World \<Rightarrow> error + (SurfaceFactory \<times> World)" where
  "CreateFromGraphicsDevice2 graphicsDevice lck w =
     new_SurfaceFactory_graphicsDevice graphicsDevice lck w"

definition OnDeviceLost :: "SurfaceFactory \<Rightarrow> World \<Rightarrow> error + (SurfaceFactory \<times> World)" where
  "OnDeviceLost f w =
     (case m_canvasDevice f of
        None \<Rightarrow> Inl NullReference
      | Some old \<Rightarrow>
          (case canvasDevices w old of
             None \<Rightarrow> Inl BackendFailure
           | Some dev \<Rightarrow>
               (let softwareRenderer = ForceSoftwareRenderer dev;
                    (d, w1) = new_CanvasDevice softwareRenderer w;
                    f1 = f\<lparr>m_canvasDevice := Some d\<rparr>
                in case m_deviceLostHelper f1 of
                     None \<Rightarrow> Inl NullReference
                   | Some h \<Rightarrow>
                       (case WatchDevice h d w1 of
                          Inl e \<Rightarrow> Inl e
                        | Inr w2 \<Rightarrow>
                            (case SetCanvasDevice (m_graphicsDevice f1) d w2 of
                               Inl e \<Rightarrow> Inl e
                             | Inr w3 \<Rightarrow> Inr (f1, w3))))))"

section \<open>Surface creation and drawing\<close>

text \<open>
  Modelled from the spec: UriSurface is declared outside the source file; it remembers
  the source URI, the requested size and the interpolation mode of the surface it wraps.
\<close>

record UriSurface =
  us_surface :: handle
  us_uri :: "Uri option"
  us_size :: Size
  us_interpolation :: InterpolationMode

text \<open>
  What the source file calls and does not define are parameters of the model: the two
  bitmap decoders of Win2D and the helper that translates the interpolation mode
  (\<open>Env\<close>), and the two operations of UriSurface (\<open>UriSurface_ops\<close>).
\<close>

record Env =
  LoadAsync :: "handle \<Rightarrow> Uri \<Rightarrow> error + CanvasBitmap"
  CreateFromBytes :: "handle \<Rightarrow> byte list \<Rightarrow> int \<Rightarrow> int \<Rightarrow> DirectXPixelFormat \<Rightarrow> error + CanvasBitmap"
  GetCanvasImageInterpolation :: "InterpolationMode \<Rightarrow> CanvasImageInterpolation"

record UriSurface_ops =
  UriSurface_Create ::
    "SurfaceFactory \<Rightarrow> Uri option \<Rightarrow> Size \<Rightarrow> InterpolationMode \<Rightarrow> World \<Rightarrow> error + (UriSurface \<times> World)"
  RedrawSurfaceAsync :: "UriSurface \<Rightarrow> SurfaceFactory \<Rightarrow> World \<Rightarrow> error + World"

text \<open>
  A task that was started and not awaited: it runs later, on the factory and the world
  of that moment. The model runs a task as a whole; tasks interleaving with each other
  are not modelled.
\<close>

type_synonym task = "SurfaceFactory \<Rightarrow> World \<Rightarrow> error + World"

definition CreateSurface :: "SurfaceFactory \<Rightarrow> Size \<Rightarrow> World \<Rightarrow> error + (handle \<times> World)" where
  "CreateSurface f sz w =
     (let surfaceSize = (if IsEmpty sz then \<lparr>Width = Finite 0, Height = Finite 0\<rparr> else sz);
          graphicsDevice = m_graphicsDevice f
      in case m_drawingLock f of
           None \<Rightarrow> Inl NullReference
         | Some l \<Rightarrow>
             (case GetLockSession l w of
                Inl e \<Rightarrow> Inl e
              | Inr w1 \<Rightarrow>
                  (case graphicsDevice of
                     None \<Rightarrow> Inl NullReference
                   | Some gd \<Rightarrow>
                       (case CreateDrawingSurface gd surfaceSize B8G8R8A8UIntNormalized Premultiplied w1 of
                          Inl e \<Rightarrow> Inl e
                        | Inr (surface, w2) \<Rightarrow> Inr (surface, end_LockSession l w2)))))"

definition DrawBitmap ::
  "Env \<Rightarrow> SurfaceFactory \<Rightarrow> handle \<Rightarrow> CanvasBitmap \<Rightarrow> Size \<Rightarrow> InterpolationMode \<Rightarrow> World \<Rightarrow> error + World" where
  "DrawBitmap env f surface canvasBitmap sz interpolation w =
     (let bitmapSize = bitmap_Size canvasBitmap in
      case m_drawingLock f of
        None \<Rightarrow> Inl NullReference
      | Some l \<Rightarrow>
          (case GetLockSession l w of
             Inl e \<Rightarrow> Inl e
           | Inr w1 \<Rightarrow>
               (case (if IsEmpty sz
                      then (case Resize surface bitmapSize w1 of
                              Inl e \<Rightarrow> Inl e
                            | Inr w2 \<Rightarrow> Inr (bitmapSize, w2))
                      else Inr (sz, w1)) of
                  Inl e \<Rightarrow> Inl e
                | Inr (surfaceSize, w2) \<Rightarrow>
                    (let surfaceRect = Rect (Finite 0) (Finite 0) (Width surfaceSize) (Height surfaceSize);
                         bitmapRect = Rect (Finite 0) (Finite 0) (Width bitmapSize) (Height bitmapSize);
                         canvasInterpolation = GetCanvasImageInterpolation env interpolation
                     in case session_Clear surface Transparent w2 of
                          Inl e \<Rightarrow> Inl e
                        | Inr w3 \<Rightarrow>
                            (case session_DrawImage surface canvasBitmap surfaceRect bitmapRect
                                    (Finite 1) canvasInterpolation w3 of
                               Inl e \<Rightarrow> Inl e
                             | Inr w4 \<Rightarrow> Inr (end_LockSession l w4))))))"

definition DrawSurface ::
  "Env \<Rightarrow> SurfaceFactory \<Rightarrow> handle \<Rightarrow> Uri option \<Rightarrow> Size \<Rightarrow> InterpolationMode \<Rightarrow> World \<Rightarrow> error + World" where
  "DrawSurface env f surface uri sz interpolation w =
     (case GetCanvasDevice (m_graphicsDevice f) w of
        Inl e \<Rightarrow> Inl e
      | Inr canvasDevice \<Rightarrow>
          (case uri of
             Some u \<Rightarrow>
               (case LoadAsync env canvasDevice u of
                  Inl e \<Rightarrow> Inl e
                | Inr canvasBitmap \<Rightarrow> DrawBitmap env f surface canvasBitmap sz interpolation w)
           | None \<Rightarrow>
               (case m_drawingLock f of
                  None \<Rightarrow> Inl NullReference
                | Some l \<Rightarrow>
                    (case GetLockSession l w of
                       Inl e \<Rightarrow> Inl e
                     | Inr w1 \<Rightarrow>
                         (case Resize surface \<lparr>Width = Finite 1, Height = Finite 1\<rparr> w1 of
                            Inl e \<Rightarrow> Inl e
                          | Inr w2 \<Rightarrow>
                              (case session_Clear surface Transparent w2 of
                                 Inl e \<Rightarrow> Inl e
                               | Inr w3 \<Rightarrow> Inr (end_LockSession l w3)))))))"

definition ResizeSurface :: "SurfaceFactory \<Rightarrow> handle \<Rightarrow> Size \<Rightarrow> World \<Rightarrow> error + World" where
  "ResizeSurface f surface sz w =
     (case m_drawingLock f of
        None \<Rightarrow> Inl NullReference
      | Some l \<Rightarrow>
          (case GetLockSession l w of
             Inl e \<Rightarrow> Inl e
           | Inr w1 \<Rightarrow>
               (case Resize surface sz w1 of
                  Inl e \<Rightarrow> Inl e
                | Inr w2 \<Rightarrow> Inr (end_LockSession l w2))))"

subsection \<open>Surfaces from a URI\<close>

definition CreateSurfaceFromUri3 ::
  "Env \<Rightarrow> SurfaceFactory \<Rightarrow> Uri option \<Rightarrow> Size \<Rightarrow> InterpolationMode \<Rightarrow> World
     \<Rightarrow> error + ((handle \<times> task) \<times> World)" where
  "CreateSurfaceFromUri3 env f uri sz interpolation w =
     (case CreateSurface f sz w of
        Inl e \<Rightarrow> Inl e
      | Inr (surface, w1) \<Rightarrow>
          (let ignored = (\<lambda>f'. DrawSurface env f' surface uri sz interpolation)
           in Inr ((surface, ignored), w1)))"

definition CreateSurfaceFromUri2 ::
  "Env \<Rightarrow> SurfaceFactory \<Rightarrow> Uri option \<Rightarrow> Size \<Rightarrow> World \<Rightarrow> error + ((handle \<times> task) \<times> World)" where
  "CreateSurfaceFromUri2 env f uri sz w = CreateSurfaceFromUri3 env f uri sz Linear w"

definition CreateSurfaceFromUri1 ::
  "Env \<Rightarrow> SurfaceFactory \<Rightarrow> Uri option \<Rightarrow> World \<Rightarrow> error + ((handle \<times> task) \<times> World)" where
  "CreateSurfaceFromUri1 env f uri w = CreateSurfaceFromUri2 env f uri Size_Empty w"

text \<open>
  The awaitable forms: the operation they return is represented by what it does when it
  runs, and its result is that of the whole.
\<close>

definition CreateSurfaceFromUriAsync3 ::
  "Env \<Rightarrow> SurfaceFactory \<Rightarrow> Uri option \<Rightarrow> Size \<Rightarrow> InterpolationMode \<Rightarrow> World
     \<Rightarrow> error + (handle \<times> World)" where
  "CreateSurfaceFromUriAsync3 env f uri sz interpolation w =
     (case CreateSurface f sz w of
        Inl e \<Rightarrow> Inl e
      | Inr (surface, w1) \<Rightarrow>
          (case DrawSurface env f surface uri sz interpolation w1 of
             Inl e \<Rightarrow> Inl e
           | Inr w2 \<Rightarrow> Inr (surface, w2)))"

definition CreateSurfaceFromUriAsync2 ::
  "Env \<Rightarrow> SurfaceFactory \<Rightarrow> Uri option \<Rightarrow> Size \<Rightarrow> World \<Rightarrow> error + (handle \<times> World)" where
  "CreateSurfaceFromUriAsync2 env f uri sz w = CreateSurfaceFromUriAsync3 env f uri sz Linear w"

definition CreateSurfaceFromUriAsync1 ::
  "Env \<Rightarrow> SurfaceFactory \<Rightarrow> Uri option \<Rightarrow> World \<Rightarrow> error + (handle \<times> World)" where
  "CreateSurfaceFromUriAsync1 env f uri w = CreateSurfaceFromUriAsync2 env f uri Size_Empty w"

subsection \<open>UriSurface creation\<close>

definition CreateUriSurface3 ::
  "UriSurface_ops \<Rightarrow> SurfaceFactory \<Rightarrow> Uri option \<Rightarrow> Size \<Rightarrow> InterpolationMode \<Rightarrow> World
     \<Rightarrow> error + ((UriSurface \<times> task) \<times> World)" where
  "CreateUriSurface3 ops f uri sz interpolation w =
     (case UriSurface_Create ops f uri sz interpolation w of
        Inl e \<Rightarrow> Inl e
      | Inr (uriSurface, w1) \<Rightarrow>
          (let ignored = RedrawSurfaceAsync ops uriSurface
           in Inr ((uriSurface, ignored), w1)))"

definition CreateUriSurface2 ::
  "UriSurface_ops \<Rightarrow> SurfaceFactory \<Rightarrow> Uri option \<Rightarrow> Size \<Rightarrow> World \<Rightarrow> error + ((UriSurface \<times> task) \<times> World)" where
  "CreateUriSurface2 ops f uri sz w = CreateUriSurface3 ops f uri sz Linear w"

definition CreateUriSurface1 ::
  "UriSurface_ops \<Rightarrow> SurfaceFactory \<Rightarrow> Uri option \<Rightarrow> World \<Rightarrow> error + ((UriSurface \<times> task) \<times> World)" where
  "CreateUriSurface1 ops f uri w = CreateUriSurface2 ops f uri Size_Empty w"

definition CreateUriSurface0 ::
  "UriSurface_ops \<Rightarrow> SurfaceFactory \<Rightarrow> World \<Rightarrow> error + ((UriSurface \<times> task) \<times> World)" where
  "CreateUriSurface0 ops f w = CreateUriSurface1 ops f None w"

definition CreateUriSurfaceAsync3 ::
  "UriSurface_ops \<Rightarrow> SurfaceFactory \<Rightarrow> Uri option \<Rightarrow> Size \<Rightarrow> InterpolationMode \<Rightarrow> World
     \<Rightarrow> error + (UriSurface \<times> World)" where
  "CreateUriSurfaceAsync3 ops f uri sz interpolation w =
     (case UriSurface_Create ops f uri sz interpolation w of
        Inl e \<Rightarrow> Inl e
      | Inr (uriSurface, w1) \<Rightarrow>
          (case RedrawSurfaceAsync ops uriSurface f w1 of
             Inl e \<Rightarrow> Inl e
           | Inr w2 \<Rightarrow> Inr (uriSurface, w2)))"

definition CreateUriSurfaceAsync2 ::
  "UriSurface_ops \<Rightarrow> SurfaceFactory \<Rightarrow> Uri option \<Rightarrow> Size \<Rightarrow> World \<Rightarrow> error + (UriSurface \<times> World)" where
  "CreateUriSurfaceAsync2 ops f uri sz w = CreateUriSurfaceAsync3 ops f uri sz Linear w"

definition CreateUriSurfaceAsync1 ::
  "UriSurface_ops \<Rightarrow> SurfaceFactory \<Rightarrow> Uri option \<Rightarrow> World \<Rightarrow> error + (UriSurface \<times> World)" where
  "CreateUriSurfaceAsync1 ops f uri w = CreateUriSurfaceAsync2 ops f uri Size_Empty w"

subsection \<open>Surfaces from raw pixels\<close>

definition CreateSurfaceFromBytes5 ::
  "Env \<Rightarrow> SurfaceFactory \<Rightarrow> byte list \<Rightarrow> int \<Rightarrow> int \<Rightarrow> Size \<Rightarrow> InterpolationMode \<Rightarrow> World
     \<Rightarrow> error + (handle \<times> World)" where
  "CreateSurfaceFromBytes5 env f bytes widthInPixels heightInPixels sz interpolation w =
     (case CreateSurface f sz w of
        Inl e \<Rightarrow> Inl e
      | Inr (surface, w1) \<Rightarrow>
          (case GetCanvasDevice (m_graphicsDevice f) w1 of
             Inl e \<Rightarrow> Inl e
           | Inr canvasDevice \<Rightarrow>
               (case CreateFromBytes env canvasDevice bytes widthInPixels heightInPixels
                       B8G8R8A8UIntNormalized of
                  Inl e \<Rightarrow> Inl e
                | Inr canvasBitmap \<Rightarrow>
                    (case DrawBitmap env f surface canvasBitmap sz interpolation w1 of
                       Inl e \<Rightarrow> Inl e
                     | Inr w2 \<Rightarrow> Inr (surface, w2)))))"

definition CreateSurfaceFromBytes4 ::
  "Env \<Rightarrow> SurfaceFactory \<Rightarrow> byte list \<Rightarrow> int \<Rightarrow> int \<Rightarrow> Size \<Rightarrow> World \<Rightarrow> error + (handle \<times> World)" where
  "CreateSurfaceFromBytes4 env f bytes widthInPixels heightInPixels sz w =
     CreateSurfaceFromBytes5 env f bytes widthInPixels heightInPixels sz Linear w"

definition CreateSurfaceFromBytes3 ::
  "Env \<Rightarrow> SurfaceFactory \<Rightarrow> byte list \<Rightarrow> int \<Rightarrow> int \<Rightarrow> World \<Rightarrow> error + (handle \<times> World)" where
  "CreateSurfaceFromBytes3 env f bytes widthInPixels heightInPixels w =
     CreateSurfaceFromBytes4 env f bytes widthInPixels heightInPixels Size_Empty w"

section \<open>Teardown\<close>

definition Uninitialize :: "SurfaceFactory \<Rightarrow> World \<Rightarrow> error + (SurfaceFactory \<times> World)" where
  "Uninitialize f w =
     (case m_drawingLock f of
        None \<Rightarrow> Inl NullReference
      | Some l \<Rightarrow>
          (case GetLockSession l w of
             Inl e \<Rightarrow> Inl e
           | Inr w1 \<Rightarrow>
               (let f1 = f\<lparr>m_compositor := None\<rparr> in
                case (case m_canvasDevice f1 of
                        Some d \<Rightarrow>
                          (case m_deviceLostHelper f1 of
                             None \<Rightarrow> Inl NullReference
                           | Some h \<Rightarrow>
                               (case StopWatchingCurrentDevice h w1 of
                                  Inl e \<Rightarrow> Inl e
                                | Inr w2 \<Rightarrow>
                                    (case close_CanvasDevice d w2 of
                                       Inl e \<Rightarrow> Inl e
                                     | Inr w3 \<Rightarrow>
                                         Inr (f1\<lparr>m_deviceLostHelper := None,
                                                 m_canvasDevice := None\<rparr>, w3))))
                      | None \<Rightarrow> Inr (f1, w1)) of
                  Inl e \<Rightarrow> Inl e
                | Inr (f2, w3) \<Rightarrow>
                    (case (case m_graphicsDevice f2 of
                             Some gd \<Rightarrow>
                               (case remove_RenderingDeviceReplaced gd
                                       (OnRenderingDeviceReplacedHandler f2) w3 of
                                  Inl e \<Rightarrow> Inl e
                                | Inr w4 \<Rightarrow>
                                    (case (if m_isGraphicsDeviceCreator f2
                                           then close_GraphicsDevice gd w4
                                           else Inr w4) of
                                       Inl e \<Rightarrow> Inl e
                                     | Inr w5 \<Rightarrow> Inr (f2\<lparr>m_graphicsDevice := None\<rparr>, w5)))
                           | None \<Rightarrow> Inr (f2, w3)) of
                       Inl e \<Rightarrow> Inl e
                     | Inr (f3, w5) \<Rightarrow>
                         Inr (f3\<lparr>m_drawingLock := None\<rparr>, end_LockSession l w5)))))"

section \<open>A factory in the owning mode, between construction and teardown\<close>

text \<open>
  The state in which a device-lost notification can arrive: the factory created its
  devices, it holds a rendering device that was allocated earlier, its helper watches
  that device, and its compositing device renders with that device.
\<close>

definition live_owning :: "SurfaceFactory \<Rightarrow> World \<Rightarrow> bool" where
  "live_owning f w =
     (m_isGraphicsDeviceCreator f \<and>
      (case (m_canvasDevice f, m_deviceLostHelper f, m_graphicsDevice f) of
         (Some d, Some h, Some gd) \<Rightarrow>
           d < next_handle w \<and>
           (case (canvasDevices w d, helpers w h, graphicsDevices w gd) of
              (Some dev, Some hp, Some g) \<Rightarrow> watched hp = Some d \<and> RenderingDevice g = d
            | _ \<Rightarrow> False)
       | _ \<Rightarrow> False))"

section \<open>Sample worlds and collaborators\<close>

text \<open>
  Concrete inputs on which the theorems below are run: a world with no object yet, a
  world in which an external owner has built a compositing device (object 0, for
  compositor 7, on the rendering device 1), and two decoders for raw pixels: one that
  accepts a buffer exactly when it holds four bytes for each pixel, one that accepts
  every buffer that is large enough.
\<close>

definition empty_World :: World where
  "empty_World =
     \<lparr>next_handle = 0, canvasDevices = Map.empty, graphicsDevices = Map.empty,
      helpers = Map.empty, surfaces = Map.empty, held = [], journal = []\<rparr>"

definition borrowed_World :: World where
  "borrowed_World =
     \<lparr>next_handle = 2,
      canvasDevices = [1 \<mapsto> \<lparr>ForceSoftwareRenderer = False, device_closed = False\<rparr>],
      graphicsDevices = [0 \<mapsto> \<lparr>Compositor = 7, RenderingDevice = 1,
                               RenderingDeviceReplaced = [], graphics_closed = False\<rparr>],
      helpers = Map.empty, surfaces = Map.empty, held = [], journal = []\<rparr>"

fun same_interpolation :: "InterpolationMode \<Rightarrow> CanvasImageInterpolation" where
  "same_interpolation NearestNeighbor = Canvas_NearestNeighbor"
| "same_interpolation Linear = Canvas_Linear"
| "same_interpolation MultiSampleLinear = Canvas_MultiSampleLinear"
| "same_interpolation Anisotropic = Canvas_Anisotropic"
| "same_interpolation Cubic = Canvas_Cubic"
| "same_interpolation HighQualityCubic = Canvas_HighQualityCubic"

definition bitmap_of_bytes :: "byte list \<Rightarrow> int \<Rightarrow> int \<Rightarrow> CanvasBitmap" where
  "bitmap_of_bytes bytes widthInPixels heightInPixels =
     \<lparr>bitmap_Size = \<lparr>Width = Finite (of_int widthInPixels), Height = Finite (of_int heightInPixels)\<rparr>,
      bitmap_pixels = bytes\<rparr>"

definition strict_Env :: Env where
  "strict_Env =
     \<lparr>LoadAsync = (\<lambda>d u. Inl BackendFailure),
      CreateFromBytes = (\<lambda>d bytes wd ht fmt.
         if int (length bytes) = wd * ht * 4 then Inr (bitmap_of_bytes bytes wd ht)
         else Inl InvalidArgument),
      GetCanvasImageInterpolation = same_interpolation\<rparr>"


text \<open>
  The factory that \<open>CreateFromCompositor(compositor 7)\<close> builds in the empty world, and
  the world it leaves (lemma \<open>owning_sample\<close> below).
\<close>

definition owning_factory :: SurfaceFactory where
  "owning_factory =
     \<lparr>self = 0, m_compositor = Some 7, m_drawingLock = Some 1,
      m_isGraphicsDeviceCreator = True, m_deviceLostHelper = Some 2,
      m_canvasDevice = Some 4, m_graphicsDevice = Some 5,
      OnDeviceLostHandler = 3, OnRenderingDeviceReplacedHandler = 6\<rparr>"

definition owning_World :: World where
  "owning_World =
     \<lparr>next_handle = 7,
      canvasDevices = [4 \<mapsto> \<lparr>ForceSoftwareRenderer = False, device_closed = False\<rparr>],
      graphicsDevices = [5 \<mapsto> \<lparr>Compositor = 7, RenderingDevice = 4,
                               RenderingDeviceReplaced = [(6, 0)], graphics_closed = False\<rparr>],
      helpers = [2 \<mapsto> \<lparr>watched = Some 4, DeviceLost = [(3, 0)]\<rparr>],
      surfaces = Map.empty, held = [],
      journal = [(New_CanvasDevice 4 False, []), (Call_WatchDevice 2 4, []),
                 (Call_CreateCompositionGraphicsDevice 5 7 4, [])]\<rparr>"

text \<open>
  The world after \<open>CreateSurface\<close> of a 10 by 10 surface on that factory (lemma
  \<open>surface_sample\<close> below): the surface is object 7.
\<close>

definition surface_World :: World where
  "surface_World =
     owning_World
       \<lparr>next_handle := 8,
        surfaces := [7 \<mapsto> \<lparr>surface_size = \<lparr>Width = Finite 10, Height = Finite 10\<rparr>,
                           pixelFormat = B8G8R8A8UIntNormalized, alphaMode = Premultiplied,
                           surface_device = 5, painted = []\<rparr>],
        journal := journal owning_World @
          [(Call_CreateDrawingSurface 5 7 \<lparr>Width = Finite 10, Height = Finite 10\<rparr>, [1])]\<rparr>"

section \<open>Construction in the owning mode\<close>

lemma CreateDevice_flag:
  assumes "UseSoftwareRenderer options = UseSoftwareRenderer options'"
  shows "CreateDevice f options w = CreateDevice f options' w"
  unfolding CreateDevice_def assms ..

lemma new_SurfaceFactory_compositor_flag:
  assumes "UseSoftwareRenderer options = UseSoftwareRenderer options'"
  shows "new_SurfaceFactory_compositor compositor options w =
         new_SurfaceFactory_compositor compositor options' w"
  unfolding new_SurfaceFactory_compositor_def CreateDevice_flag [OF assms] ..

text \<open>
  With a compositor, the owning constructor always succeeds: it allocates, in this
  order, the factory, its lock, the device-loss helper, the registration of
  \<open>OnDeviceLost\<close>, the rendering device, the compositing device and the registration
  of \<open>OnRenderingDeviceReplaced\<close>.
\<close>

lemma new_SurfaceFactory_compositor_Some:
  "new_SurfaceFactory_compositor (Some c) options w =
     Inr (\<lparr>self = next_handle w, m_compositor = Some c,
            m_drawingLock = Some (next_handle w + 1),
            m_isGraphicsDeviceCreator = True,
            m_deviceLostHelper = Some (next_handle w + 2),
            m_canvasDevice = Some (next_handle w + 4),
            m_graphicsDevice = Some (next_handle w + 5),
            OnDeviceLostHandler = next_handle w + 3,
            OnRenderingDeviceReplacedHandler = next_handle w + 6\<rparr>,
          w\<lparr>next_handle := next_handle w + 7,
            canvasDevices := (canvasDevices w)(next_handle w + 4 \<mapsto>
               \<lparr>ForceSoftwareRenderer = UseSoftwareRenderer options, device_closed = False\<rparr>),
            graphicsDevices := (graphicsDevices w)(next_handle w + 5 \<mapsto>
               \<lparr>Compositor = c, RenderingDevice = next_handle w + 4,
                RenderingDeviceReplaced = [(next_handle w + 6, next_handle w)],
                graphics_closed = False\<rparr>),
            helpers := (helpers w)(next_handle w + 2 \<mapsto>
               \<lparr>watched = Some (next_handle w + 4),
                DeviceLost = [(next_handle w + 3, next_handle w)]\<rparr>),
            journal := journal w @
               [(New_CanvasDevice (next_handle w + 4) (UseSoftwareRenderer options), held w),
                (Call_WatchDevice (next_handle w + 2) (next_handle w + 4), held w),
                (Call_CreateCompositionGraphicsDevice (next_handle w + 5) c (next_handle w + 4),
                 held w)]\<rparr>)"
  apply (simp add: new_SurfaceFactory_compositor_def CreateDevice_def alloc_def
      new_DeviceLostHelper_def add_DeviceLost_def blank_SurfaceFactory_def
      new_CanvasDevice_def WatchDevice_def CreateCompositionGraphicsDevice_def
      add_RenderingDeviceReplaced_def record_call_def Let_def)
  apply (rule World.equality; simp add: eval_nat_numeral)
  done

text \<open>
  C10. \<open>CreateFromCompositor(compositor)\<close> is \<open>CreateFromCompositor(compositor, options)\<close>
  for any options whose \<open>UseSoftwareRenderer\<close> is false, whatever else the options
  hold; and the rendering device it creates for a compositor is a hardware one
  (\<open>ForceSoftwareRenderer\<close> is false).
\<close>

theorem CreateFromCompositor_default_options:
  "CreateFromCompositor1 compositor w =
     CreateFromCompositor2 compositor (options\<lparr>UseSoftwareRenderer := False\<rparr>) w
   \<and> (\<exists>f w' d. CreateFromCompositor1 (Some c) w = Inr (f, w')
         \<and> m_isGraphicsDeviceCreator f
         \<and> m_canvasDevice f = Some d
         \<and> canvasDevices w' d = Some \<lparr>ForceSoftwareRenderer = False, device_closed = False\<rparr>)"
proof
  have "new_SurfaceFactory_compositor compositor \<lparr>UseSoftwareRenderer = False\<rparr> w =
        new_SurfaceFactory_compositor compositor (options\<lparr>UseSoftwareRenderer := False\<rparr>) w"
    by (rule new_SurfaceFactory_compositor_flag) simp
  then show "CreateFromCompositor1 compositor w =
     CreateFromCompositor2 compositor (options\<lparr>UseSoftwareRenderer := False\<rparr>) w"
    by (simp add: CreateFromCompositor1_def CreateFromCompositor2_def)
next
  show "\<exists>f w' d. CreateFromCompositor1 (Some c) w = Inr (f, w')
         \<and> m_isGraphicsDeviceCreator f
         \<and> m_canvasDevice f = Some d
         \<and> canvasDevices w' d = Some \<lparr>ForceSoftwareRenderer = False, device_closed = False\<rparr>"
    by (simp add: CreateFromCompositor1_def new_SurfaceFactory_compositor_Some)
qed

section \<open>Overloads and their defaults\<close>

text \<open>
  C9. Every overload that leaves out the size is the full form at \<open>Size::Empty\<close>, and
  every overload that leaves out the interpolation is the full form at
  \<open>InterpolationMode::Linear\<close>: for \<open>CreateSurfaceFromUri\<close>, \<open>CreateUriSurface\<close>,
  \<open>CreateSurfaceFromBytes\<close> and the awaitable forms, whatever the decoders and the
  UriSurface operations do. \<open>CreateUriSurface()\<close> is moreover the full form at a null
  URI.
\<close>

theorem overloads_use_defaults:
  "CreateSurfaceFromUri1 env f uri w = CreateSurfaceFromUri3 env f uri Size_Empty Linear w
   \<and> CreateSurfaceFromUri2 env f uri sz w = CreateSurfaceFromUri3 env f uri sz Linear w
   \<and> CreateSurfaceFromUriAsync1 env f uri w = CreateSurfaceFromUriAsync3 env f uri Size_Empty Linear w
   \<and> CreateSurfaceFromUriAsync2 env f uri sz w = CreateSurfaceFromUriAsync3 env f uri sz Linear w
   \<and> CreateUriSurface0 ops f w = CreateUriSurface3 ops f None Size_Empty Linear w
   \<and> CreateUriSurface1 ops f uri w = CreateUriSurface3 ops f uri Size_Empty Linear w
   \<and> CreateUriSurface2 ops f uri sz w = CreateUriSurface3 ops f uri sz Linear w
   \<and> CreateUriSurfaceAsync1 ops f uri w = CreateUriSurfaceAsync3 ops f uri Size_Empty Linear w
   \<and> CreateUriSurfaceAsync2 ops f uri sz w = CreateUriSurfaceAsync3 ops f uri sz Linear w
   \<and> CreateSurfaceFromBytes3 env f bytes wd ht w =
         CreateSurfaceFromBytes5 env f bytes wd ht Size_Empty Linear w
   \<and> CreateSurfaceFromBytes4 env f bytes wd ht sz w =
         CreateSurfaceFromBytes5 env f bytes wd ht sz Linear w"
  by (simp only: CreateSurfaceFromUri1_def CreateSurfaceFromUri2_def
      CreateSurfaceFromUriAsync1_def CreateSurfaceFromUriAsync2_def
      CreateUriSurface0_def CreateUriSurface1_def CreateUriSurface2_def
      CreateUriSurfaceAsync1_def CreateUriSurfaceAsync2_def
      CreateSurfaceFromBytes3_def CreateSurfaceFromBytes4_def simp_thms)

section \<open>Sample states\<close>

lemma owning_sample:
  "CreateFromCompositor1 (Some 7) empty_World = Inr (owning_factory, owning_World)"
  by (simp add: CreateFromCompositor1_def new_SurfaceFactory_compositor_Some
      owning_factory_def owning_World_def empty_World_def eval_nat_numeral)

lemma owning_sample_live:
  "m_drawingLock owning_factory = Some 1"
  "1 \<notin> set (held owning_World)"
  "m_graphicsDevice owning_factory = Some 5"
  "graphicsDevices owning_World 5 =
     Some \<lparr>Compositor = 7, RenderingDevice = 4,
           RenderingDeviceReplaced = [(6, 0)], graphics_closed = False\<rparr>"
  by (simp_all add: owning_factory_def owning_World_def)

section \<open>Allocation of a surface\<close>

lemma CreateSurface_live:
  assumes "m_drawingLock f = Some l" "l \<notin> set (held w)"
    and "m_graphicsDevice f = Some gd" "graphicsDevices w gd = Some g"
  shows "CreateSurface f sz w =
     Inr (next_handle w,
          w\<lparr>next_handle := Suc (next_handle w),
            surfaces := (surfaces w)(next_handle w \<mapsto>
              \<lparr>surface_size = (if IsEmpty sz then \<lparr>Width = Finite 0, Height = Finite 0\<rparr> else sz),
               pixelFormat = B8G8R8A8UIntNormalized, alphaMode = Premultiplied,
               surface_device = gd, painted = []\<rparr>),
            journal := journal w @
              [(Call_CreateDrawingSurface gd (next_handle w)
                  (if IsEmpty sz then \<lparr>Width = Finite 0, Height = Finite 0\<rparr> else sz),
                l # held w)]\<rparr>)"
  using assms
  by (simp add: CreateSurface_def GetLockSession_def CreateDrawingSurface_def alloc_def
      record_call_def end_LockSession_def Let_def)

text \<open>
  C7. On a factory that holds a lock and a compositing device, with the lock free,
  \<open>CreateSurface(size)\<close> returns a surface of the given size, or of size (0, 0) when
  the size is empty, in the format B8G8R8A8UIntNormalized with premultiplied alpha; the
  one backend call it makes, \<open>CreateDrawingSurface\<close>, is made with the factory's lock
  held, and the lock is free again afterwards.
\<close>

theorem CreateSurface_allocates:
  assumes "m_drawingLock f = Some l" and "l \<notin> set (held w)"
    and "m_graphicsDevice f = Some gd" and "graphicsDevices w gd = Some g"
  shows "\<exists>s w'. CreateSurface f sz w = Inr (s, w')
           \<and> surfaces w' s =
               Some \<lparr>surface_size =
                        (if IsEmpty sz then \<lparr>Width = Finite 0, Height = Finite 0\<rparr> else sz),
                     pixelFormat = B8G8R8A8UIntNormalized, alphaMode = Premultiplied,
                     surface_device = gd, painted = []\<rparr>
           \<and> journal w' = journal w @
                 [(Call_CreateDrawingSurface gd s
                     (if IsEmpty sz then \<lparr>Width = Finite 0, Height = Finite 0\<rparr> else sz),
                   l # held w)]
           \<and> held w' = held w"
  by (simp add: CreateSurface_live [OF assms])

theorem CreateSurface_allocates_witness:
  "(\<exists>s w'. CreateSurface owning_factory Size_Empty owning_World = Inr (s, w')
      \<and> surfaces w' s =
           Some \<lparr>surface_size = \<lparr>Width = Finite 0, Height = Finite 0\<rparr>,
                 pixelFormat = B8G8R8A8UIntNormalized, alphaMode = Premultiplied,
                 surface_device = 5, painted = []\<rparr>
      \<and> journal w' = journal owning_World @
            [(Call_CreateDrawingSurface 5 s \<lparr>Width = Finite 0, Height = Finite 0\<rparr>,
              1 # held owning_World)]
      \<and> held w' = held owning_World)
   \<and> (\<exists>s w'. CreateSurface owning_factory \<lparr>Width = Finite 3, Height = Finite 2\<rparr> owning_World
                 = Inr (s, w')
      \<and> surfaces w' s =
           Some \<lparr>surface_size = \<lparr>Width = Finite 3, Height = Finite 2\<rparr>,
                 pixelFormat = B8G8R8A8UIntNormalized, alphaMode = Premultiplied,
                 surface_device = 5, painted = []\<rparr>
      \<and> journal w' = journal owning_World @
            [(Call_CreateDrawingSurface 5 s \<lparr>Width = Finite 3, Height = Finite 2\<rparr>,
              1 # held owning_World)]
      \<and> held w' = held owning_World)"
  using CreateSurface_allocates [OF owning_sample_live, of Size_Empty]
    CreateSurface_allocates [OF owning_sample_live, of "\<lparr>Width = Finite 3, Height = Finite 2\<rparr>"]
  by (simp add: Size_Empty_def IsEmpty_def)

section \<open>Clearing and painting\<close>

lemma DrawSurface_null:
  assumes "m_drawingLock f = Some l" "l \<notin> set (held w)"
    and "m_graphicsDevice f = Some gd" "graphicsDevices w gd = Some g"
    and "surfaces w s = Some so"
  shows "DrawSurface env f s None sz ip w =
     Inr (w\<lparr>surfaces := (surfaces w)(s \<mapsto>
              so\<lparr>surface_size := \<lparr>Width = Finite 1, Height = Finite 1\<rparr>,
                 painted := [Clear Transparent]\<rparr>),
            journal := journal w @
              [(Call_Resize s \<lparr>Width = Finite 1, Height = Finite 1\<rparr>, l # held w),
               (Call_Clear s Transparent, l # held w)]\<rparr>)"
  using assms
  by (simp add: DrawSurface_def GetCanvasDevice_def GetLockSession_def Resize_def
      session_Clear_def record_call_def end_LockSession_def Let_def)

text \<open>
  C5. On a factory that holds a lock and a compositing device, with the lock free,
  \<open>DrawSurface\<close> with a null URI succeeds on every surface: it resizes the surface to
  1 by 1 and clears it to \<open>Colors::Transparent\<close> (alpha 0), both with the factory's lock
  held, and frees the lock. So the surface that \<open>CreateSurfaceFromUri(nullptr, ...)\<close>
  returns has size (1, 1) and nothing but the transparent clear on it once its draw task
  has run.
\<close>

theorem DrawSurface_null_uri_clears:
  assumes "m_drawingLock f = Some l" and "l \<notin> set (held w)"
    and "m_graphicsDevice f = Some gd" and "graphicsDevices w gd = Some g"
  shows "(\<forall>s so. surfaces w s = Some so \<longrightarrow>
            (\<exists>w'. DrawSurface env f s None sz ip w = Inr w'
               \<and> surfaces w' s =
                   Some (so\<lparr>surface_size := \<lparr>Width = Finite 1, Height = Finite 1\<rparr>,
                            painted := [Clear Transparent]\<rparr>)
               \<and> journal w' = journal w @
                   [(Call_Resize s \<lparr>Width = Finite 1, Height = Finite 1\<rparr>, l # held w),
                    (Call_Clear s Transparent, l # held w)]
               \<and> held w' = held w))
       \<and> (\<exists>s ignored w1 w2 so'.
             CreateSurfaceFromUri3 env f None sz ip w = Inr ((s, ignored), w1)
             \<and> ignored f w1 = Inr w2
             \<and> surfaces w2 s = Some so'
             \<and> surface_size so' = \<lparr>Width = Finite 1, Height = Finite 1\<rparr>
             \<and> painted so' = [Clear Transparent])
       \<and> alpha_of Transparent = 0"
proof (intro conjI allI impI)
  fix s so assume "surfaces w s = Some so"
  then show "\<exists>w'. DrawSurface env f s None sz ip w = Inr w'
               \<and> surfaces w' s =
                   Some (so\<lparr>surface_size := \<lparr>Width = Finite 1, Height = Finite 1\<rparr>,
                            painted := [Clear Transparent]\<rparr>)
               \<and> journal w' = journal w @
                   [(Call_Resize s \<lparr>Width = Finite 1, Height = Finite 1\<rparr>, l # held w),
                    (Call_Clear s Transparent, l # held w)]
               \<and> held w' = held w"
    by (simp add: DrawSurface_null [OF assms])
next
  have "\<exists>w1 so. CreateSurface f sz w = Inr (next_handle w, w1)
          \<and> held w1 = held w \<and> graphicsDevices w1 gd = Some g
          \<and> surfaces w1 (next_handle w) = Some so"
    by (simp add: CreateSurface_live [OF assms] assms(4))
  then obtain w1 so where c: "CreateSurface f sz w = Inr (next_handle w, w1)"
    and w1: "held w1 = held w" "graphicsDevices w1 gd = Some g"
      "surfaces w1 (next_handle w) = Some so"
    by blast
  from w1 assms have d: "l \<notin> set (held w1)" by simp
  show "\<exists>s ignored w1 w2 so'.
             CreateSurfaceFromUri3 env f None sz ip w = Inr ((s, ignored), w1)
             \<and> ignored f w1 = Inr w2
             \<and> surfaces w2 s = Some so'
             \<and> surface_size so' = \<lparr>Width = Finite 1, Height = Finite 1\<rparr>
             \<and> painted so' = [Clear Transparent]"
    by (simp add: CreateSurfaceFromUri3_def c
        DrawSurface_null [OF assms(1) d assms(3) w1(2) w1(3)])
next
  show "alpha_of Transparent = 0" by (simp add: Transparent_def)
qed


lemma surface_sample:
  "CreateSurface owning_factory \<lparr>Width = Finite 10, Height = Finite 10\<rparr> owning_World =
     Inr (7, surface_World)"
  by (simp add: CreateSurface_live [OF owning_sample_live] IsEmpty_def surface_World_def)
    (simp add: owning_World_def)

lemma surface_sample_live:
  "m_drawingLock owning_factory = Some 1"
  "1 \<notin> set (held surface_World)"
  "m_graphicsDevice owning_factory = Some 5"
  "graphicsDevices surface_World 5 =
     Some \<lparr>Compositor = 7, RenderingDevice = 4,
           RenderingDeviceReplaced = [(6, 0)], graphics_closed = False\<rparr>"
  by (simp_all add: owning_factory_def owning_World_def surface_World_def)

lemma surface_sample_surface:
  "surfaces surface_World 7 =
     Some \<lparr>surface_size = \<lparr>Width = Finite 10, Height = Finite 10\<rparr>,
           pixelFormat = B8G8R8A8UIntNormalized, alphaMode = Premultiplied,
           surface_device = 5, painted = []\<rparr>"
  by (simp add: surface_World_def)

theorem DrawSurface_null_uri_clears_witness:
  "\<exists>w'. DrawSurface strict_Env owning_factory 7 None Size_Empty Linear surface_World = Inr w'
     \<and> surfaces w' 7 =
         Some \<lparr>surface_size = \<lparr>Width = Finite 1, Height = Finite 1\<rparr>,
               pixelFormat = B8G8R8A8UIntNormalized, alphaMode = Premultiplied,
               surface_device = 5, painted = [Clear Transparent]\<rparr>
     \<and> journal w' = journal surface_World @
         [(Call_Resize 7 \<lparr>Width = Finite 1, Height = Finite 1\<rparr>, 1 # held surface_World),
          (Call_Clear 7 Transparent, 1 # held surface_World)]
     \<and> held w' = held surface_World"
  using DrawSurface_null_uri_clears [where env = strict_Env and sz = Size_Empty and ip = Linear,
      OF surface_sample_live, THEN conjunct1, rule_format, OF surface_sample_surface]
  by simp

lemma DrawBitmap_live:
  assumes "m_drawingLock f = Some l" "l \<notin> set (held w)"
    and "surfaces w s = Some so"
  shows "DrawBitmap env f s bm sz ip w =
     Inr (w\<lparr>surfaces := (surfaces w)(s \<mapsto>
              so\<lparr>surface_size := (if IsEmpty sz then bitmap_Size bm else surface_size so),
                 painted :=
                   [Clear Transparent,
                    DrawImage bm
                      (Rect (Finite 0) (Finite 0)
                         (Width (if IsEmpty sz then bitmap_Size bm else sz))
                         (Height (if IsEmpty sz then bitmap_Size bm else sz)))
                      (Rect (Finite 0) (Finite 0)
                         (Width (bitmap_Size bm)) (Height (bitmap_Size bm)))
                      (Finite 1) (GetCanvasImageInterpolation env ip)]\<rparr>),
            journal := journal w @
              (if IsEmpty sz then [(Call_Resize s (bitmap_Size bm), l # held w)] else []) @
              [(Call_Clear s Transparent, l # held w),
               (Call_DrawImage s bm
                  (Rect (Finite 0) (Finite 0)
                     (Width (if IsEmpty sz then bitmap_Size bm else sz))
                     (Height (if IsEmpty sz then bitmap_Size bm else sz)))
                  (Rect (Finite 0) (Finite 0)
                     (Width (bitmap_Size bm)) (Height (bitmap_Size bm)))
                  (Finite 1) (GetCanvasImageInterpolation env ip),
                l # held w)]\<rparr>)"
  using assms
  by (simp add: DrawBitmap_def GetLockSession_def Resize_def session_DrawImage_def
      session_Clear_def record_call_def end_LockSession_def Let_def)

text \<open>
  C6, as amended. On a factory that holds a lock, with the lock free, \<open>DrawBitmap\<close>
  succeeds on every surface and does all its work with the lock held. When the requested
  size is empty it resizes the surface to the bitmap's size; otherwise it leaves the
  size of the surface as it is. It clears the surface to transparent and draws the
  bitmap, from the bitmap's full rectangle, at opacity 1, with the interpolation that
  \<open>GetCanvasImageInterpolation\<close> gives for the requested mode, into the rectangle
  at the origin whose size is the bitmap's size when the requested size is empty, and
  the requested size otherwise. That rectangle is the surface's full rectangle when the
  requested size is empty or is the size the surface has.
\<close>

theorem DrawBitmap_paints:
  assumes "m_drawingLock f = Some l" and "l \<notin> set (held w)"
    and "surfaces w s = Some so"
  shows "\<exists>w' so'. DrawBitmap env f s bm sz ip w = Inr w'
           \<and> held w' = held w
           \<and> surfaces w' s = Some so'
           \<and> surface_size so' = (if IsEmpty sz then bitmap_Size bm else surface_size so)
           \<and> painted so' =
               [Clear Transparent,
                DrawImage bm
                  (Rect (Finite 0) (Finite 0)
                     (Width (if IsEmpty sz then bitmap_Size bm else sz))
                     (Height (if IsEmpty sz then bitmap_Size bm else sz)))
                  (Rect (Finite 0) (Finite 0)
                     (Width (bitmap_Size bm)) (Height (bitmap_Size bm)))
                  (Finite 1) (GetCanvasImageInterpolation env ip)]
           \<and> journal w' = journal w @
               (if IsEmpty sz then [(Call_Resize s (bitmap_Size bm), l # held w)] else []) @
               [(Call_Clear s Transparent, l # held w),
                (Call_DrawImage s bm
                   (Rect (Finite 0) (Finite 0)
                      (Width (if IsEmpty sz then bitmap_Size bm else sz))
                      (Height (if IsEmpty sz then bitmap_Size bm else sz)))
                   (Rect (Finite 0) (Finite 0)
                      (Width (bitmap_Size bm)) (Height (bitmap_Size bm)))
                   (Finite 1) (GetCanvasImageInterpolation env ip),
                 l # held w)]
           \<and> (IsEmpty sz \<or> surface_size so = sz \<longrightarrow>
                 (if IsEmpty sz then bitmap_Size bm else sz) = surface_size so')"
  by (simp add: DrawBitmap_live [OF assms])

theorem DrawBitmap_paints_witness:
  "(\<exists>w' so'. DrawBitmap strict_Env owning_factory 7
                 (bitmap_of_bytes (replicate 16 0) 2 2) Size_Empty Cubic surface_World = Inr w'
      \<and> held w' = held surface_World
      \<and> surfaces w' 7 = Some so'
      \<and> surface_size so' = \<lparr>Width = Finite 2, Height = Finite 2\<rparr>
      \<and> painted so' =
          [Clear Transparent,
           DrawImage (bitmap_of_bytes (replicate 16 0) 2 2)
             (Rect (Finite 0) (Finite 0) (Finite 2) (Finite 2))
             (Rect (Finite 0) (Finite 0) (Finite 2) (Finite 2))
             (Finite 1) Canvas_Cubic])
   \<and> (\<exists>w' so'. DrawBitmap strict_Env owning_factory 7
                 (bitmap_of_bytes (replicate 16 0) 2 2)
                 \<lparr>Width = Finite 10, Height = Finite 10\<rparr> Linear surface_World = Inr w'
      \<and> held w' = held surface_World
      \<and> surfaces w' 7 = Some so'
      \<and> surface_size so' = \<lparr>Width = Finite 10, Height = Finite 10\<rparr>
      \<and> painted so' =
          [Clear Transparent,
           DrawImage (bitmap_of_bytes (replicate 16 0) 2 2)
             (Rect (Finite 0) (Finite 0) (Finite 10) (Finite 10))
             (Rect (Finite 0) (Finite 0) (Finite 2) (Finite 2))
             (Finite 1) Canvas_Linear])"
  using DrawBitmap_paints [where env = strict_Env and sz = Size_Empty and ip = Cubic
        and bm = "bitmap_of_bytes (replicate 16 0) 2 2",
      OF surface_sample_live(1,2) surface_sample_surface]
    DrawBitmap_paints [where env = strict_Env
        and sz = "\<lparr>Width = Finite 10, Height = Finite 10\<rparr>" and ip = Linear
        and bm = "bitmap_of_bytes (replicate 16 0) 2 2",
      OF surface_sample_live(1,2) surface_sample_surface]
  by (auto simp add: Size_Empty_def IsEmpty_def bitmap_of_bytes_def strict_Env_def)

text \<open>
  The claim as stated fails when the requested size is given and is not the size of the
  surface: on the 10 by 10 surface, a draw that asks for 5 by 5 leaves the surface
  10 by 10 and paints into the rectangle (0, 0, 5, 5), which is not the full rectangle
  of the surface.
\<close>

theorem DrawBitmap_full_rectangle_counterexample:
  "(case DrawBitmap strict_Env owning_factory 7 (bitmap_of_bytes (replicate 16 0) 2 2)
           \<lparr>Width = Finite 5, Height = Finite 5\<rparr> Linear surface_World of
      Inl e \<Rightarrow> False
    | Inr w' \<Rightarrow>
        (case surfaces w' 7 of
           None \<Rightarrow> False
         | Some so' \<Rightarrow>
             surface_size so' = \<lparr>Width = Finite 10, Height = Finite 10\<rparr>
             \<and> painted so' =
                 [Clear Transparent,
                  DrawImage (bitmap_of_bytes (replicate 16 0) 2 2)
                    (Rect (Finite 0) (Finite 0) (Finite 5) (Finite 5))
                    (Rect (Finite 0) (Finite 0) (Finite 2) (Finite 2))
                    (Finite 1) Canvas_Linear]
             \<and> Rect (Finite 0) (Finite 0) (Finite 5) (Finite 5) \<noteq>
                 Rect (Finite 0) (Finite 0) (Width (surface_size so')) (Height (surface_size so'))))"
  by (simp add: DrawBitmap_live [OF surface_sample_live(1,2) surface_sample_surface]
      IsEmpty_def bitmap_of_bytes_def strict_Env_def)

section \<open>Raw pixels and their decoder\<close>




section \<open>The borrowing mode\<close>

lemma new_SurfaceFactory_graphicsDevice_Some:
  assumes "graphicsDevices w gd = Some g"
  shows "new_SurfaceFactory_graphicsDevice (Some gd) lck w =
     (let n = (case lck of None \<Rightarrow> next_handle w + 2 | Some l \<Rightarrow> next_handle w + 1) in
      Inr (\<lparr>self = next_handle w, m_compositor = Some (Compositor g),
             m_drawingLock = Some (case lck of None \<Rightarrow> next_handle w + 1 | Some l \<Rightarrow> l),
             m_isGraphicsDeviceCreator = False,
             m_deviceLostHelper = None, m_canvasDevice = None,
             m_graphicsDevice = Some gd,
             OnDeviceLostHandler = 0,
             OnRenderingDeviceReplacedHandler = n\<rparr>,
           w\<lparr>next_handle := Suc n,
             graphicsDevices := (graphicsDevices w)(gd \<mapsto>
               g\<lparr>RenderingDeviceReplaced :=
                    RenderingDeviceReplaced g @ [(n, next_handle w)]\<rparr>)\<rparr>))"
  using assms
  by (cases lck)
    (simp_all add: new_SurfaceFactory_graphicsDevice_def alloc_def
      add_RenderingDeviceReplaced_def blank_SurfaceFactory_def Let_def)

lemma Uninitialize_borrowing:
  assumes "m_drawingLock f = Some l" and "l \<notin> set (held w)"
    and "m_canvasDevice f = None" and "m_graphicsDevice f = Some gd"
    and "m_isGraphicsDeviceCreator f = False"
    and "graphicsDevices w gd = Some g"
  shows "Uninitialize f w =
     Inr (f\<lparr>m_compositor := None, m_graphicsDevice := None, m_drawingLock := None\<rparr>,
          w\<lparr>graphicsDevices := (graphicsDevices w)(gd \<mapsto>
               g\<lparr>RenderingDeviceReplaced :=
                    filter (\<lambda>p. fst p \<noteq> OnRenderingDeviceReplacedHandler f)
                      (RenderingDeviceReplaced g)\<rparr>)\<rparr>)"
  using assms
  by (simp add: Uninitialize_def GetLockSession_def end_LockSession_def
      remove_RenderingDeviceReplaced_def Let_def)


text \<open>
  C8. A factory built from an existing compositing device (with or without a lock to
  share) is not the creator of the device: it holds no rendering device and no
  device-loss helper, and its construction creates no rendering device, creates and
  watches with no helper, and calls nothing on a device; all it does to the device is to
  add its handler to \<open>RenderingDeviceReplaced\<close>. \<open>OnDeviceLost\<close> is registered
  nowhere, and were it called it would stop at the null rendering device. Teardown, in
  any later world in which the factory's lock is free, removes that handler and nothing
  else: the device is not closed, and no rendering device is touched.
\<close>

theorem borrowing_mode_owns_no_device:
  assumes "graphicsDevices w gd = Some g"
  shows "\<exists>f w1. CreateFromGraphicsDevice2 (Some gd) lck w = Inr (f, w1)
           \<and> CreateFromGraphicsDevice1 (Some gd) w = CreateFromGraphicsDevice2 (Some gd) None w
           \<and> m_isGraphicsDeviceCreator f = False
           \<and> m_canvasDevice f = None \<and> m_deviceLostHelper f = None
           \<and> m_graphicsDevice f = Some gd
           \<and> canvasDevices w1 = canvasDevices w \<and> helpers w1 = helpers w
           \<and> journal w1 = journal w
           \<and> graphicsDevices w1 gd =
               Some (g\<lparr>RenderingDeviceReplaced := RenderingDeviceReplaced g @
                          [(OnRenderingDeviceReplacedHandler f, self f)]\<rparr>)
           \<and> (\<forall>w'. OnDeviceLost f w' = Inl NullReference)
           \<and> (\<forall>w' g' l. graphicsDevices w' gd = Some g' \<longrightarrow>
                 m_drawingLock f = Some l \<longrightarrow> l \<notin> set (held w') \<longrightarrow>
                 (\<exists>f2 w2. Uninitialize f w' = Inr (f2, w2)
                    \<and> m_graphicsDevice f2 = None
                    \<and> canvasDevices w2 = canvasDevices w' \<and> helpers w2 = helpers w'
                    \<and> journal w2 = journal w'
                    \<and> graphicsDevices w2 gd =
                        Some (g'\<lparr>RenderingDeviceReplaced :=
                                   filter (\<lambda>p. fst p \<noteq> OnRenderingDeviceReplacedHandler f)
                                     (RenderingDeviceReplaced g')\<rparr>)))"
proof -
  obtain f w1 where c: "new_SurfaceFactory_graphicsDevice (Some gd) lck w = Inr (f, w1)"
    by (simp add: new_SurfaceFactory_graphicsDevice_Some [OF assms] Let_def)
  from c have f: "m_isGraphicsDeviceCreator f = False" "m_canvasDevice f = None"
    "m_deviceLostHelper f = None" "m_graphicsDevice f = Some gd"
    and w1: "canvasDevices w1 = canvasDevices w" "helpers w1 = helpers w"
      "journal w1 = journal w"
      "graphicsDevices w1 gd =
               Some (g\<lparr>RenderingDeviceReplaced := RenderingDeviceReplaced g @
                          [(OnRenderingDeviceReplacedHandler f, self f)]\<rparr>)"
    by (auto simp add: new_SurfaceFactory_graphicsDevice_Some [OF assms] Let_def)
  have lost: "OnDeviceLost f w' = Inl NullReference" for w'
    by (simp add: OnDeviceLost_def f)
  have down: "\<exists>f2 w2. Uninitialize f w' = Inr (f2, w2)
                    \<and> m_graphicsDevice f2 = None
                    \<and> canvasDevices w2 = canvasDevices w' \<and> helpers w2 = helpers w'
                    \<and> journal w2 = journal w'
                    \<and> graphicsDevices w2 gd =
                        Some (g'\<lparr>RenderingDeviceReplaced :=
                                   filter (\<lambda>p. fst p \<noteq> OnRenderingDeviceReplacedHandler f)
                                     (RenderingDeviceReplaced g')\<rparr>)"
    if "graphicsDevices w' gd = Some g'" "m_drawingLock f = Some l" "l \<notin> set (held w')"
    for w' g' l
    by (simp add: Uninitialize_borrowing [OF that(2,3) f(2,4,1) that(1)])
  show ?thesis
    using c f w1 lost down
    by (simp add: CreateFromGraphicsDevice1_def CreateFromGraphicsDevice2_def)
qed

theorem borrowing_mode_owns_no_device_witness:
  "\<exists>f w1 f2 w2. CreateFromGraphicsDevice1 (Some 0) borrowed_World = Inr (f, w1)
     \<and> m_isGraphicsDeviceCreator f = False
     \<and> m_canvasDevice f = None \<and> m_deviceLostHelper f = None
     \<and> canvasDevices w1 = canvasDevices borrowed_World
     \<and> helpers w1 = helpers borrowed_World
     \<and> graphicsDevices w1 0 =
         Some \<lparr>Compositor = 7, RenderingDevice = 1,
               RenderingDeviceReplaced = [(OnRenderingDeviceReplacedHandler f, self f)],
               graphics_closed = False\<rparr>
     \<and> Uninitialize f w1 = Inr (f2, w2)
     \<and> canvasDevices w2 = canvasDevices borrowed_World
     \<and> journal w2 = journal borrowed_World
     \<and> graphicsDevices w2 0 =
         Some \<lparr>Compositor = 7, RenderingDevice = 1,
               RenderingDeviceReplaced = [], graphics_closed = False\<rparr>"
proof -
  have g: "graphicsDevices borrowed_World 0 =
     Some \<lparr>Compositor = 7, RenderingDevice = 1,
           RenderingDeviceReplaced = [], graphics_closed = False\<rparr>"
    by (simp add: borrowed_World_def)
  from borrowing_mode_owns_no_device [OF g, of None]
  obtain f w1 where c: "CreateFromGraphicsDevice2 (Some 0) None borrowed_World = Inr (f, w1)"
    and one: "CreateFromGraphicsDevice1 (Some 0) borrowed_World =
              CreateFromGraphicsDevice2 (Some 0) None borrowed_World"
    and f: "m_isGraphicsDeviceCreator f = False" "m_canvasDevice f = None"
      "m_deviceLostHelper f = None"
    and w1: "canvasDevices w1 = canvasDevices borrowed_World"
      "helpers w1 = helpers borrowed_World" "journal w1 = journal borrowed_World"
      "graphicsDevices w1 0 =
         Some \<lparr>Compositor = 7, RenderingDevice = 1,
               RenderingDeviceReplaced = [(OnRenderingDeviceReplacedHandler f, self f)],
               graphics_closed = False\<rparr>"
    and down: "\<And>w' g' l. graphicsDevices w' 0 = Some g' \<Longrightarrow>
                 m_drawingLock f = Some l \<Longrightarrow> l \<notin> set (held w') \<Longrightarrow>
                 (\<exists>f2 w2. Uninitialize f w' = Inr (f2, w2)
                    \<and> m_graphicsDevice f2 = None
                    \<and> canvasDevices w2 = canvasDevices w' \<and> helpers w2 = helpers w'
                    \<and> journal w2 = journal w'
                    \<and> graphicsDevices w2 0 =
                        Some (g'\<lparr>RenderingDeviceReplaced :=
                                   filter (\<lambda>p. fst p \<noteq> OnRenderingDeviceReplacedHandler f)
                                     (RenderingDeviceReplaced g')\<rparr>))"
    by auto
  have lock: "m_drawingLock f = Some 3" "3 \<notin> set (held w1)"
    using c
    unfolding CreateFromGraphicsDevice2_def new_SurfaceFactory_graphicsDevice_Some [OF g]
    by (auto simp add: borrowed_World_def Let_def)
  from down [OF w1(4) lock] c one f w1 show ?thesis
    by auto
qed

section \<open>Device loss\<close>

lemma live_owningE:
  assumes "live_owning f w"
  obtains d h gd dev hp g where
    "m_isGraphicsDeviceCreator f"
    "m_canvasDevice f = Some d" "m_deviceLostHelper f = Some h" "m_graphicsDevice f = Some gd"
    "d < next_handle w"
    "canvasDevices w d = Some dev" "helpers w h = Some hp" "graphicsDevices w gd = Some g"
    "watched hp = Some d" "RenderingDevice g = d"
  using assms
  by (auto simp add: live_owning_def split: option.splits)

lemma live_owning_constructed:
  "new_SurfaceFactory_compositor (Some c) options w = Inr (f, w') \<Longrightarrow> live_owning f w'"
  by (auto simp add: new_SurfaceFactory_compositor_Some live_owning_def)

lemma OnDeviceLost_live:
  assumes "m_canvasDevice f = Some d" "m_deviceLostHelper f = Some h"
    "m_graphicsDevice f = Some gd"
    "canvasDevices w d = Some dev" "helpers w h = Some hp" "graphicsDevices w gd = Some g"
  shows "OnDeviceLost f w =
     Inr (f\<lparr>m_canvasDevice := Some (next_handle w)\<rparr>,
          w\<lparr>next_handle := Suc (next_handle w),
            canvasDevices := (canvasDevices w)(next_handle w \<mapsto>
              \<lparr>ForceSoftwareRenderer = ForceSoftwareRenderer dev, device_closed = False\<rparr>),
            helpers := (helpers w)(h \<mapsto> hp\<lparr>watched := Some (next_handle w)\<rparr>),
            graphicsDevices := (graphicsDevices w)(gd \<mapsto> g\<lparr>RenderingDevice := next_handle w\<rparr>),
            journal := journal w @
              [(New_CanvasDevice (next_handle w) (ForceSoftwareRenderer dev), held w),
               (Call_WatchDevice h (next_handle w), held w),
               (Call_SetCanvasDevice gd (next_handle w), held w)]\<rparr>)"
  using assms
  by (simp add: OnDeviceLost_def new_CanvasDevice_def alloc_def WatchDevice_def
      SetCanvasDevice_def record_call_def Let_def)


lemma owning_sample_is_live:
  "live_owning owning_factory owning_World"
  by (simp add: live_owning_def owning_factory_def owning_World_def)

text \<open>
  C4. In the owning mode, between construction and teardown, \<open>OnDeviceLost\<close> succeeds
  and leaves the factory with a new rendering device: its handle is not the handle held
  before, its \<open>ForceSoftwareRenderer\<close> is that of the device held before, the
  compositing device (the same as before, which rendered with the old device) now
  renders with it, and the helper watches it. The factory is then again in the state
  described by \<open>live_owning\<close>, so the same holds at the next loss.
\<close>

theorem OnDeviceLost_recovers:
  assumes "live_owning f w"
  shows "\<exists>f' w' old new dev dev' h hp gd g0 g.
           m_canvasDevice f = Some old \<and> canvasDevices w old = Some dev
           \<and> m_graphicsDevice f = Some gd
           \<and> graphicsDevices w gd = Some g0 \<and> RenderingDevice g0 = old
           \<and> OnDeviceLost f w = Inr (f', w')
           \<and> m_canvasDevice f' = Some new \<and> new \<noteq> old
           \<and> canvasDevices w' new = Some dev'
           \<and> ForceSoftwareRenderer dev' = ForceSoftwareRenderer dev
           \<and> m_graphicsDevice f' = Some gd
           \<and> graphicsDevices w' gd = Some g \<and> RenderingDevice g = new
           \<and> m_deviceLostHelper f = Some h \<and> m_deviceLostHelper f' = Some h
           \<and> helpers w' h = Some hp \<and> watched hp = Some new
           \<and> live_owning f' w'"
proof -
  from assms obtain d h gd dev hp g where
    f: "m_isGraphicsDeviceCreator f"
      "m_canvasDevice f = Some d" "m_deviceLostHelper f = Some h" "m_graphicsDevice f = Some gd"
    and fresh: "d < next_handle w"
    and w: "canvasDevices w d = Some dev" "helpers w h = Some hp" "graphicsDevices w gd = Some g"
    and g: "RenderingDevice g = d"
    by (rule live_owningE)
  from fresh have ne: "next_handle w \<noteq> d" by simp
  show ?thesis
    using f w g ne
    by (simp add: OnDeviceLost_live [OF f(2-4) w] live_owning_def)
qed

theorem OnDeviceLost_recovers_witness:
  "live_owning owning_factory owning_World
   \<and> (\<exists>f' w' new dev' g hp.
         OnDeviceLost owning_factory owning_World = Inr (f', w')
         \<and> m_canvasDevice owning_factory = Some 4
         \<and> m_canvasDevice f' = Some new \<and> new \<noteq> 4
         \<and> canvasDevices w' new = Some dev' \<and> ForceSoftwareRenderer dev' = False
         \<and> graphicsDevices w' 5 = Some g \<and> RenderingDevice g = new
         \<and> helpers w' 2 = Some hp \<and> watched hp = Some new
         \<and> live_owning f' w')"
proof -
  have f: "m_canvasDevice owning_factory = Some 4" "m_graphicsDevice owning_factory = Some 5"
    "m_deviceLostHelper owning_factory = Some 2"
    "canvasDevices owning_World 4 = Some \<lparr>ForceSoftwareRenderer = False, device_closed = False\<rparr>"
    by (simp_all add: owning_factory_def owning_World_def)
  from OnDeviceLost_recovers [OF owning_sample_is_live] f owning_sample_is_live
  show ?thesis
    by (auto simp del: not_None_eq)
qed

text \<open>
  C2 does not hold of the code. \<open>OnDeviceLost\<close> never asks for the lock: the three
  operations of the recovery (the new rendering device, \<open>WatchDevice\<close>,
  \<open>SetCanvasDevice\<close>) are journaled with exactly the locks that were held when the
  notification arrived, and the set of held locks is the same afterwards. When the
  factory's lock is free at that moment, as it is whenever no draw is in progress, the
  whole recovery runs outside the lock.
\<close>

theorem OnDeviceLost_takes_no_lock:
  assumes "live_owning f w"
  shows "\<exists>f' w' new sw h gd.
           OnDeviceLost f w = Inr (f', w')
           \<and> m_drawingLock f' = m_drawingLock f
           \<and> held w' = held w
           \<and> journal w' = journal w @
               [(New_CanvasDevice new sw, held w),
                (Call_WatchDevice h new, held w),
                (Call_SetCanvasDevice gd new, held w)]"
proof -
  from assms obtain d h gd dev hp g where
    f: "m_canvasDevice f = Some d" "m_deviceLostHelper f = Some h" "m_graphicsDevice f = Some gd"
    and w: "canvasDevices w d = Some dev" "helpers w h = Some hp" "graphicsDevices w gd = Some g"
    by (rule live_owningE)
  show ?thesis
    by (simp add: OnDeviceLost_live [OF f w])
qed

theorem OnDeviceLost_takes_no_lock_witness:
  "m_drawingLock owning_factory = Some 1
   \<and> held owning_World = []
   \<and> (\<exists>f' w' new sw h gd.
         OnDeviceLost owning_factory owning_World = Inr (f', w')
         \<and> held w' = []
         \<and> journal w' = journal owning_World @
             [(New_CanvasDevice new sw, []),
              (Call_WatchDevice h new, []),
              (Call_SetCanvasDevice gd new, [])])"
proof -
  have h: "held owning_World = []" "m_drawingLock owning_factory = Some 1"
    by (simp_all add: owning_factory_def owning_World_def)
  from OnDeviceLost_takes_no_lock [OF owning_sample_is_live] h show ?thesis
    by auto
qed

section \<open>Teardown, once and twice\<close>

lemma Uninitialize_owning:
  assumes "m_drawingLock f = Some l" and "l \<notin> set (held w)"
    and "m_canvasDevice f = Some d" and "m_deviceLostHelper f = Some h"
    and "m_graphicsDevice f = Some gd" and "m_isGraphicsDeviceCreator f"
    and "canvasDevices w d = Some dev" and "helpers w h = Some hp"
    and "graphicsDevices w gd = Some g"
  shows "Uninitialize f w =
     Inr (f\<lparr>m_compositor := None, m_deviceLostHelper := None, m_canvasDevice := None,
            m_graphicsDevice := None, m_drawingLock := None\<rparr>,
          w\<lparr>helpers := (helpers w)(h \<mapsto> hp\<lparr>watched := None\<rparr>),
            canvasDevices := (canvasDevices w)(d \<mapsto> dev\<lparr>device_closed := True\<rparr>),
            graphicsDevices := (graphicsDevices w)(gd \<mapsto>
              g\<lparr>RenderingDeviceReplaced :=
                   filter (\<lambda>p. fst p \<noteq> OnRenderingDeviceReplacedHandler f)
                     (RenderingDeviceReplaced g),
                 graphics_closed := True\<rparr>),
            journal := journal w @
              [(Call_StopWatchingCurrentDevice h, l # held w),
               (Close_CanvasDevice d, l # held w),
               (Close_GraphicsDevice gd, l # held w)]\<rparr>)"
  using assms
  by (simp add: Uninitialize_def GetLockSession_def end_LockSession_def
      StopWatchingCurrentDevice_def close_CanvasDevice_def close_GraphicsDevice_def
      remove_RenderingDeviceReplaced_def record_call_def Let_def)

lemma Uninitialize_clears_lock:
  "Uninitialize f w = Inr (f1, w1) \<Longrightarrow> m_drawingLock f1 = None"
  by (auto simp add: Uninitialize_def Let_def
      split: option.splits sum.splits if_splits prod.splits)

lemma Uninitialize_without_lock:
  "m_drawingLock f = None \<Longrightarrow> Uninitialize f w = Inl NullReference"
  by (simp add: Uninitialize_def)

text \<open>
  C1 does not hold of the code. A call of \<open>Uninitialize\<close> that returns leaves
  \<open>m_drawingLock\<close> null, and the next call starts with
  \<open>m_drawingLock->GetLockSession()\<close>: it faults on the null reference, in whatever
  world it runs, instead of doing nothing. The destructor calls \<open>Uninitialize\<close> too, so
  a factory that was torn down by hand faults again when it is destroyed.
\<close>

theorem Uninitialize_twice_faults:
  assumes "Uninitialize f w = Inr (f1, w1)"
  shows "Uninitialize f1 w2 = Inl NullReference"
  by (rule Uninitialize_without_lock) (rule Uninitialize_clears_lock [OF assms])

theorem Uninitialize_twice_faults_witness:
  "\<exists>f1 w1. Uninitialize owning_factory owning_World = Inr (f1, w1)
     \<and> m_canvasDevice f1 = None \<and> m_graphicsDevice f1 = None
     \<and> Uninitialize f1 w1 = Inl NullReference"
proof -
  have live:
    "m_canvasDevice owning_factory = Some 4" "m_deviceLostHelper owning_factory = Some 2"
    "m_isGraphicsDeviceCreator owning_factory"
    "canvasDevices owning_World 4 = Some \<lparr>ForceSoftwareRenderer = False, device_closed = False\<rparr>"
    "helpers owning_World 2 = Some \<lparr>watched = Some 4, DeviceLost = [(3, 0)]\<rparr>"
    by (simp_all add: owning_factory_def owning_World_def)
  have "\<exists>f1 w1. Uninitialize owning_factory owning_World = Inr (f1, w1)
          \<and> m_canvasDevice f1 = None \<and> m_graphicsDevice f1 = None"
    by (simp add: Uninitialize_owning [OF owning_sample_live(1,2) live(1,2)
          owning_sample_live(3) live(3,4,5) owning_sample_live(4)])
  then obtain f1 w1 where u: "Uninitialize owning_factory owning_World = Inr (f1, w1)"
    and n: "m_canvasDevice f1 = None" "m_graphicsDevice f1 = None"
    by blast
  from Uninitialize_twice_faults [OF u, of w1] u n show ?thesis
    by blast
qed

end
